theory Spec2Isabelle
  imports Complex_Main
begin

section \<open>Data model\<close>

text \<open>
  The notebook \<^verbatim>\<open>notebooks/1_Preprocessing.ipynb\<close> segments a batch of grayscale
  images and writes one column of ten region properties per image. An image is a
  two-dimensional array of intensities, given here row by row; \<^verbatim>\<open>image.shape[0]\<close> is
  the number of rows. Intensities, centroids and the other floating-point region
  properties are double-precision numbers, read as the real numbers they denote:
  comparisons and negation are exact on them, and a subtraction rounds its exact
  result (\<open>double_sub\<close> below). A label map holds a blob identifier per
  pixel, 0 for the background; the notebook keeps label maps in a float array and
  converts them back with \<^verbatim>\<open>astype(int)\<close>, which is the identity on blob identifiers.
\<close>

type_synonym image = "real list list"
type_synonym mask = "bool list list"
type_synonym label_map = "int list list"

text \<open>The attributes of a scikit-image region that the notebook reads.\<close>

record region =
  area :: nat
  eccentricity :: real
  equivalent_diameter :: real
  extent :: real
  major_axis_length :: real
  minor_axis_length :: real
  perimeter :: real
  max_intensity :: real
  mean_intensity :: real
  min_intensity :: real
  centroid :: "real \<times> real"

text \<open>
  The arguments of the \<^verbatim>\<open>ValueError\<close>s of the notebook:
  \<^verbatim>\<open>('invalid image for otsu thresholding', np.max(image))\<close>,
  \<^verbatim>\<open>('bad threshold', [(r.area, r.eccentricity) for r in regions])\<close>, the error of
  \<^verbatim>\<open>np.max\<close> on an array without elements, and the error of assigning a vector of the
  wrong length to a matrix column. Exceptions of any other class are not caught by
  the batch loops.
\<close>

datatype payload =
  InvalidOtsu real
| BadThreshold "(nat \<times> real) list"
| ZeroSizeArray
| ShapeMismatch

datatype exn = ValueError payload | IndexError | AttributeError

text \<open>
  The library functions that the notebook calls are not part of the repository; they
  are parameters of the model. \<open>threshold_otsu\<close> returns \<open>None\<close> where the library
  raises; \<open>closing\<close> is \<^verbatim>\<open>closing(_, square(2))\<close>; \<open>label\<close> is
  \<^verbatim>\<open>label(_, connectivity=2)\<close>; \<open>regionprops\<close> is \<^verbatim>\<open>regionprops(labels, image)\<close>;
  \<open>linalg_norm\<close> is \<^verbatim>\<open>np.linalg.norm\<close> on a vector of two doubles, with whatever rounding
  the library has. The other functions are taken to return without raising.
\<close>

record skimage =
  threshold_otsu :: "image \<Rightarrow> real option"
  closing :: "mask \<Rightarrow> mask"
  label :: "mask \<Rightarrow> label_map"
  regionprops :: "label_map \<Rightarrow> image \<Rightarrow> region list"
  linalg_norm :: "real \<times> real \<Rightarrow> real"

section \<open>Double-precision subtraction\<close>

text \<open>
  The difference of two doubles is the double nearest to the exact difference, ties
  going to the even significand (IEEE 754 binary64, the arithmetic of Python floats and
  of numpy's \<^verbatim>\<open>float64\<close>). For positive \<open>x\<close>, \<open>floor_log2 x\<close> is the exponent \<open>e\<close> with
  \<^verbatim>\<open>2^e <= x < 2^(e+1)\<close>. A double has 53 significant bits, so the doubles around \<open>x\<close>
  are the multiples of \<^verbatim>\<open>2^(e-52)\<close>, and the multiples of \<^verbatim>\<open>2^(-1074)\<close> in the subnormal
  range. Overflow to infinity is left out: centroids lie within the image.
\<close>

function floor_log2 :: "real \<Rightarrow> int" where
  "floor_log2 x =
     (if 2 \<le> x then floor_log2 (x / 2) + 1
      else if 0 < x \<and> x < 1 then floor_log2 (2 * x) - 1
      else 0)"
  by pat_completeness auto
termination
proof (relation "measure (\<lambda>x. nat (2 * \<lceil>1 / x\<rceil> + \<lfloor>x\<rfloor>))")
  show "wf (measure (\<lambda>x. nat (2 * \<lceil>1 / x\<rceil> + \<lfloor>x\<rfloor>)))" by simp
next
  fix x :: real
  assume x: "2 \<le> x"
  have c1: "\<lceil>1 / x\<rceil> = 1" using x by (simp add: ceiling_eq_iff)
  have c2: "\<lceil>1 / (x / 2)\<rceil> = 1" using x by (simp add: ceiling_eq_iff)
  have lt: "\<lfloor>x / 2\<rfloor> < \<lfloor>x\<rfloor>" using x by linarith
  have pos: "0 < 2 + \<lfloor>x\<rfloor>" using x by linarith
  show "(x / 2, x) \<in> measure (\<lambda>x. nat (2 * \<lceil>1 / x\<rceil> + \<lfloor>x\<rfloor>))"
    using c1 c2 lt pos by simp
next
  fix x :: real
  assume "\<not> 2 \<le> x" and x: "0 < x \<and> x < 1"
  have f0: "\<lfloor>x\<rfloor> = 0" using x by (simp add: floor_eq_iff)
  have y: "1 < 1 / x" using x by simp
  show "(2 * x, x) \<in> measure (\<lambda>x. nat (2 * \<lceil>1 / x\<rceil> + \<lfloor>x\<rfloor>))"
  proof (cases "1 / x \<le> 2")
    case True
    then have "2 * x \<ge> 1" using x by (simp add: field_simps)
    then have f1: "\<lfloor>2 * x\<rfloor> = 1" using x by (simp add: floor_eq_iff)
    have "1 / (2 * x) \<le> 1" using \<open>2 * x \<ge> 1\<close> by simp
    moreover have "0 < 1 / (2 * x)" using x by simp
    ultimately have c1: "\<lceil>1 / (2 * x)\<rceil> = 1" by (simp add: ceiling_eq_iff)
    have c2: "\<lceil>1 / x\<rceil> = 2" using True y by (simp add: ceiling_eq_iff)
    show ?thesis using f0 f1 c1 c2 by simp
  next
    case False
    then have "2 * x < 1" using x by (simp add: field_simps)
    then have f1: "\<lfloor>2 * x\<rfloor> = 0" using x by (simp add: floor_eq_iff)
    have "1 / (2 * x) = (1 / x) / 2" by simp
    also have "\<dots> \<le> 1 / x - 1" using False by simp
    finally have "\<lceil>1 / (2 * x)\<rceil> \<le> \<lceil>1 / x - 1\<rceil>" by (rule ceiling_mono)
    then have c: "\<lceil>1 / (2 * x)\<rceil> < \<lceil>1 / x\<rceil>" by simp
    have "0 < \<lceil>1 / (2 * x)\<rceil>" using x by simp
    then show ?thesis using f0 f1 c by simp
  qed
qed

declare floor_log2.simps [simp del]

definition pow2 :: "int \<Rightarrow> real" where
  "pow2 q = (if 0 \<le> q then 2 ^ nat q else 1 / 2 ^ nat (- q))"

definition round_half_even :: "real \<Rightarrow> int" where
  "round_half_even m =
     (let f = \<lfloor>m\<rfloor>; d = m - of_int f
      in if d < 1 / 2 then f else if 1 / 2 < d then f + 1 else if even f then f else f + 1)"

definition round_double :: "real \<Rightarrow> real" where
  "round_double x =
     (if x = 0 then 0
      else
        (let q = max (floor_log2 \<bar>x\<bar> - 52) (- 1074)
         in of_int (round_half_even (x / pow2 q)) * pow2 q))"

text \<open>
  The operands of a subtraction are doubles. A number that is not a double, such as the
  decimal 7.3, stands for the double nearest to it, as when Python reads it; on a double
  \<open>round_double\<close> changes nothing.
\<close>

definition double_sub :: "real \<Rightarrow> real \<Rightarrow> real" where
  "double_sub x y = round_double (round_double x - round_double y)"

section \<open>Control flow\<close>

text \<open>
  A \<^verbatim>\<open>for\<close> loop over a range whose body may raise: the first exception that the body
  does not catch ends the loop.
\<close>

fun for_range :: "(nat \<Rightarrow> 's \<Rightarrow> exn + 's) \<Rightarrow> nat list \<Rightarrow> 's \<Rightarrow> exn + 's" where
  "for_range body [] s = Inr s"
| "for_range body (i # rest) s =
     (case body i s of Inl e \<Rightarrow> Inl e | Inr s' \<Rightarrow> for_range body rest s')"

text \<open>\<^verbatim>\<open>xs[0]\<close> raises \<^verbatim>\<open>IndexError\<close> on an empty list.\<close>

definition first :: "'a list \<Rightarrow> exn + 'a" where
  "first xs = (case xs of [] \<Rightarrow> Inl IndexError | x # _ \<Rightarrow> Inr x)"

section \<open>Segmentation: \<^verbatim>\<open>extract_region_label\<close>\<close>

definition np_max :: "image \<Rightarrow> exn + real" where
  "np_max img =
     (case concat img of
        [] \<Rightarrow> Inl (ValueError ZeroSizeArray)
      | p # ps \<Rightarrow> Inr (fold max ps p))"

definition extract_region_label :: "skimage \<Rightarrow> image \<Rightarrow> exn + label_map" where
  "extract_region_label lib img =
     (case threshold_otsu lib img of
        None \<Rightarrow>
          (case np_max img of
             Inl e \<Rightarrow> Inl e
           | Inr m \<Rightarrow> Inl (ValueError (InvalidOtsu m)))
      | Some thresh \<Rightarrow>
          (let bw = closing lib (map (map (\<lambda>p. thresh < p)) img);
               region_label = label lib bw
           in Inr region_label))"

text \<open>
  The first batch loop. Its state is the array \<open>region_labels\<close> and the global list
  \<open>failed_indexes\<close>. A \<^verbatim>\<open>ValueError\<close> is caught and recorded; slot \<open>i\<close> of
  \<open>region_labels\<close> is then not assigned.
\<close>

fun label_step ::
  "skimage \<Rightarrow> image list \<Rightarrow> nat \<Rightarrow> label_map list \<times> (nat \<times> string) list
     \<Rightarrow> exn + label_map list \<times> (nat \<times> string) list" where
  "label_step lib images i (region_labels, failed_indexes) =
     (case extract_region_label lib (images ! i) of
        Inr region_label \<Rightarrow> Inr (region_labels[i := region_label], failed_indexes)
      | Inl (ValueError err) \<Rightarrow>
          Inr (region_labels, failed_indexes @ [(i, ''extract_region_label'')])
      | Inl e \<Rightarrow> Inl e)"

text \<open>
  \<^verbatim>\<open>np.empty(images.shape)\<close> allocates the array without initialising it: \<open>uninit i\<close> is
  whatever slot \<open>i\<close> holds before the loop, as \<^verbatim>\<open>astype(int)\<close> reads it later. The
  parameter \<^verbatim>\<open>indexes\<close> of both batch functions is never used and is left out.
\<close>

definition extract_region_labels_from_images ::
  "skimage \<Rightarrow> (nat \<Rightarrow> label_map) \<Rightarrow> image list \<Rightarrow> (nat \<times> string) list
     \<Rightarrow> exn + label_map list \<times> (nat \<times> string) list" where
  "extract_region_labels_from_images lib uninit images failed_indexes =
     (let region_labels = map uninit [0..<length images]
      in for_range (label_step lib images) [0..<length images]
           (region_labels, failed_indexes))"

section \<open>Selection: \<^verbatim>\<open>find_target_region\<close>\<close>

definition WIDTH_DELTA_THRESHOLD :: real where "WIDTH_DELTA_THRESHOLD = 25"
definition HEIGHT_DELTA_THRESHOLD :: real where "HEIGHT_DELTA_THRESHOLD = 15"
definition AREA_THRESHOLD :: nat where "AREA_THRESHOLD = 30"
definition ECCENTRICITY_THRESHOLD :: real where "ECCENTRICITY_THRESHOLD = 98 / 100"

definition two_regions_close :: "region list \<Rightarrow> bool" where
  "two_regions_close two_regions =
     (if length two_regions \<noteq> 2 then False
      else
        (let width_delta =
               \<bar>double_sub (snd (centroid (two_regions ! 0))) (snd (centroid (two_regions ! 1)))\<bar>;
             height_delta =
               \<bar>double_sub (fst (centroid (two_regions ! 0))) (fst (centroid (two_regions ! 1)))\<bar>
         in width_delta < WIDTH_DELTA_THRESHOLD \<and> height_delta < HEIGHT_DELTA_THRESHOLD))"

text \<open>The list \<open>filtered\<close> of \<^verbatim>\<open>find_target_region\<close>.\<close>

definition filtered :: "region list \<Rightarrow> region list" where
  "filtered regions =
     filter (\<lambda>x. AREA_THRESHOLD \<le> area x \<and> eccentricity x < ECCENTRICITY_THRESHOLD) regions"

text \<open>
  The list \<open>sorted_mean_intensity\<close>. Python's \<^verbatim>\<open>sorted\<close> is stable, and so is
  \<^const>\<open>sort_key\<close>: elements with equal keys keep their order.
\<close>

definition sorted_mean_intensity :: "region list \<Rightarrow> region list" where
  "sorted_mean_intensity candidates = take 2 (sort_key (\<lambda>x. - mean_intensity x) candidates)"

text \<open>
  \<^verbatim>\<open>np.linalg.norm(bottom_left - x.centroid)\<close> with \<^verbatim>\<open>bottom_left = [image.shape[0], 0]\<close>:
  the array subtraction is the subtraction of doubles, entry by entry.
\<close>

definition bottom_left_distance :: "skimage \<Rightarrow> image \<Rightarrow> region \<Rightarrow> real" where
  "bottom_left_distance lib img x =
     (let bottom_left = (real (length img), 0 :: real)
      in linalg_norm lib
           (double_sub (fst bottom_left) (fst (centroid x)),
            double_sub (snd bottom_left) (snd (centroid x))))"

definition find_target_region :: "skimage \<Rightarrow> label_map \<Rightarrow> image \<Rightarrow> exn + region" where
  "find_target_region lib region_label img =
     (let regions = regionprops lib region_label img in
      if length (filtered regions) = 0
      then Inl (ValueError (BadThreshold (map (\<lambda>r. (area r, eccentricity r)) regions)))
      else
        (let top = sorted_mean_intensity (filtered regions) in
         if two_regions_close top
         then first (sort_key (\<lambda>x. - snd (centroid x)) top)
         else first (sort_key (bottom_left_distance lib img) top)))"

section \<open>Encoding: \<^verbatim>\<open>extract_vocab\<close>\<close>

definition fields :: "string list" where
  "fields = [''area'', ''eccentricity'', ''equivalent_diameter'', ''extent'',
     ''major_axis_length'', ''minor_axis_length'', ''perimeter'', ''max_intensity'',
     ''mean_intensity'', ''min_intensity'']"

text \<open>\<^verbatim>\<open>region[name]\<close> reads the attribute of that name.\<close>

definition getitem :: "region \<Rightarrow> string \<Rightarrow> real option" where
  "getitem r name =
     (if name = ''area'' then Some (real (area r))
      else if name = ''eccentricity'' then Some (eccentricity r)
      else if name = ''equivalent_diameter'' then Some (equivalent_diameter r)
      else if name = ''extent'' then Some (extent r)
      else if name = ''major_axis_length'' then Some (major_axis_length r)
      else if name = ''minor_axis_length'' then Some (minor_axis_length r)
      else if name = ''perimeter'' then Some (perimeter r)
      else if name = ''max_intensity'' then Some (max_intensity r)
      else if name = ''mean_intensity'' then Some (mean_intensity r)
      else if name = ''min_intensity'' then Some (min_intensity r)
      else None)"

definition extract_vocab :: "region \<Rightarrow> exn + real list" where
  "extract_vocab r =
     for_range
       (\<lambda>i vocab.
          case getitem r (fields ! i) of
            None \<Rightarrow> Inl AttributeError
          | Some v \<Rightarrow> Inr (vocab[i := v]))
       [0..<10] (replicate 10 0)"

section \<open>The second batch loop: \<^verbatim>\<open>extract_vocab_from_region_labels\<close>\<close>

text \<open>
  The matrix is stored as its ten rows. \<^verbatim>\<open>vocab_matrix[:, i] = v\<close> writes entry \<open>i\<close> of
  every row and raises a \<^verbatim>\<open>ValueError\<close> when \<open>v\<close> has not one entry per row.
\<close>

definition set_column :: "real list list \<Rightarrow> nat \<Rightarrow> real list \<Rightarrow> exn + real list list" where
  "set_column vocab_matrix i v =
     (if length v = length vocab_matrix
      then Inr (map2 (\<lambda>row x. row[i := x]) vocab_matrix v)
      else Inl (ValueError ShapeMismatch))"

definition column :: "real list list \<Rightarrow> nat \<Rightarrow> real list" where
  "column vocab_matrix i = map (\<lambda>row. row ! i) vocab_matrix"

text \<open>The statements of the \<^verbatim>\<open>try\<close> block for image \<open>i\<close>.\<close>

definition vocab_try ::
  "skimage \<Rightarrow> label_map list \<Rightarrow> image list \<Rightarrow> nat \<Rightarrow> real list list \<Rightarrow> exn + real list list" where
  "vocab_try lib region_labels images i vocab_matrix =
     (if length region_labels \<le> i then Inl IndexError
      else
        (case find_target_region lib (region_labels ! i) (images ! i) of
           Inl e \<Rightarrow> Inl e
         | Inr r \<Rightarrow>
             (case extract_vocab r of
                Inl e \<Rightarrow> Inl e
              | Inr v \<Rightarrow> set_column vocab_matrix i v)))"

fun vocab_step ::
  "skimage \<Rightarrow> label_map list \<Rightarrow> image list \<Rightarrow> nat \<Rightarrow> real list list \<times> (nat \<times> string) list
     \<Rightarrow> exn + real list list \<times> (nat \<times> string) list" where
  "vocab_step lib region_labels images i (vocab_matrix, failed_indexes) =
     (case vocab_try lib region_labels images i vocab_matrix of
        Inr vocab_matrix' \<Rightarrow> Inr (vocab_matrix', failed_indexes)
      | Inl (ValueError err) \<Rightarrow>
          Inr (vocab_matrix, failed_indexes @ [(i, ''find_target_region'')])
      | Inl e \<Rightarrow> Inl e)"

definition extract_vocab_from_region_labels ::
  "skimage \<Rightarrow> label_map list \<Rightarrow> image list \<Rightarrow> (nat \<times> string) list
     \<Rightarrow> exn + real list list \<times> (nat \<times> string) list" where
  "extract_vocab_from_region_labels lib region_labels images failed_indexes =
     (let vocab_matrix = replicate 10 (replicate (length images) 0)
      in for_range (vocab_step lib region_labels images) [0..<length images]
           (vocab_matrix, failed_indexes))"

section \<open>The notebook, cell by cell\<close>

text \<open>
  \<open>failed_indexes\<close> starts empty, the first loop fills \<open>region_labels\<close>, the second loop
  fills \<open>vocab_matrix\<close>. Console output, plotting and saving the two arrays are left
  out. The saved index list is the first component of every failure record.
\<close>

definition run ::
  "skimage \<Rightarrow> (nat \<Rightarrow> label_map) \<Rightarrow> image list \<Rightarrow> exn + real list list \<times> (nat \<times> string) list" where
  "run lib uninit images =
     (case extract_region_labels_from_images lib uninit images [] of
        Inl e \<Rightarrow> Inl e
      | Inr (region_labels, failed_indexes) \<Rightarrow>
          extract_vocab_from_region_labels lib region_labels images failed_indexes)"

definition saved_failed_indexes :: "(nat \<times> string) list \<Rightarrow> nat list" where
  "saved_failed_indexes failed_indexes = map fst failed_indexes"

section \<open>Concrete regions and a stand-in for the library\<close>

text \<open>
  The statements below hold for every choice of the library functions. To evaluate the
  notebook on concrete batches, \<open>stub_skimage\<close> supplies one choice: thresholding raises
  on an image without pixels or with a single intensity (as \<^verbatim>\<open>threshold_otsu\<close> of the
  scikit-image releases of the notebook's time does) and otherwise returns the midpoint of
  the extreme intensities; closing changes nothing; labelling puts all foreground pixels
  into blob 1; the regions of a label map are given by the argument \<open>props\<close>; the norm
  is the exact Euclidean norm.
  \<open>blob\<close> is a region with the given area, eccentricity, intensity and centroid, and
  \<open>count_blob\<close> describes the positive pixels of a label map as one region of that area,
  or as no region when there is none.
\<close>

definition blob :: "nat \<Rightarrow> real \<Rightarrow> real \<Rightarrow> real \<times> real \<Rightarrow> region" where
  "blob a e m c =
     \<lparr>area = a, eccentricity = e, equivalent_diameter = 7, extent = 1,
      major_axis_length = 8, minor_axis_length = 6, perimeter = 20,
      max_intensity = m, mean_intensity = m, min_intensity = m, centroid = c\<rparr>"

definition count_blob :: "label_map \<Rightarrow> region list" where
  "count_blob region_label =
     (let n = length (filter (\<lambda>v. 0 < v) (concat region_label))
      in if n = 0 then [] else [blob n 0 1 (0, 0)])"

definition stub_skimage :: "(label_map \<Rightarrow> region list) \<Rightarrow> skimage" where
  "stub_skimage props =
     \<lparr>threshold_otsu =
        (\<lambda>img. case concat img of
                 [] \<Rightarrow> None
               | p # ps \<Rightarrow>
                   if fold min ps p = fold max ps p then None
                   else Some ((fold min ps p + fold max ps p) / 2)),
      closing = (\<lambda>bw. bw),
      label = map (map (\<lambda>b. if b then 1 else 0)),
      regionprops = (\<lambda>region_label img. props region_label),
      linalg_norm = (\<lambda>v. sqrt ((fst v)\<^sup>2 + (snd v)\<^sup>2))\<rparr>"

section \<open>The vocabulary vector\<close>

lemma upt_10: "[0..<10] = [0, 1, 2, 3, 4, 5, 6, 7, 8, 9 :: nat]"
  by (simp add: upt_rec)

lemma extract_vocab_value:
  "extract_vocab r =
     Inr [real (area r), eccentricity r, equivalent_diameter r, extent r,
          major_axis_length r, minor_axis_length r, perimeter r,
          max_intensity r, mean_intensity r, min_intensity r]"
  by (simp add: extract_vocab_def upt_10 fields_def getitem_def numeral_eq_Suc)

lemma extract_vocab_Inr: "extract_vocab r = Inr (projr (extract_vocab r))"
  by (simp add: extract_vocab_value)

lemma length_extract_vocab: "length (projr (extract_vocab r)) = 10"
  by (simp add: extract_vocab_value)

text \<open>
  C7. The encoder never raises, and its result is the ten-element vector of area,
  eccentricity, equivalent diameter, extent, major axis length, minor axis length,
  perimeter, maximal, mean and minimal intensity of the region, in this order.
\<close>

theorem extract_vocab_field_order:
  "extract_vocab r =
     Inr [real (area r), eccentricity r, equivalent_diameter r, extent r,
          major_axis_length r, minor_axis_length r, perimeter r,
          max_intensity r, mean_intensity r, min_intensity r]"
  by (simp add: extract_vocab_def upt_10 fields_def getitem_def numeral_eq_Suc)

section \<open>The empty batch\<close>

text \<open>
  C10. On a batch without images both loops end at once: the run raises nothing and
  returns a matrix of ten rows without columns and an empty failure list.
\<close>

theorem run_empty_batch:
  "run lib uninit [] = Inr (replicate 10 [], [])"
  by (simp add: run_def extract_region_labels_from_images_def
      extract_vocab_from_region_labels_def)

section \<open>The selector\<close>

lemma first_nonempty: "xs \<noteq> [] \<Longrightarrow> first xs = Inr (hd xs)"
  by (cases xs) (simp_all add: first_def)

lemma sort_key_nonempty: "xs \<noteq> [] \<Longrightarrow> sort_key f xs \<noteq> []"
  by (metis length_sort length_0_conv)

lemma sorted_mean_intensity_nonempty:
  "cands \<noteq> [] \<Longrightarrow> sorted_mean_intensity cands \<noteq> []"
  by (simp add: sorted_mean_intensity_def sort_key_nonempty)

lemma sorted_mean_intensity_single: "sorted_mean_intensity [r] = [r]"
  by (simp add: sorted_mean_intensity_def)

text \<open>The selector raises exactly when nothing passes the filter.\<close>

lemma find_target_region_isl:
  "isl (find_target_region lib l img) = (filtered (regionprops lib l img) = [])"
proof (cases "filtered (regionprops lib l img) = []")
  case True
  then show ?thesis by (simp add: find_target_region_def)
next
  case False
  then have ne: "sorted_mean_intensity (filtered (regionprops lib l img)) \<noteq> []"
    by (rule sorted_mean_intensity_nonempty)
  have "sort_key f (sorted_mean_intensity (filtered (regionprops lib l img))) \<noteq> []"
    for f :: "region \<Rightarrow> real"
    using ne by (rule sort_key_nonempty)
  with False show ?thesis
    by (simp add: find_target_region_def Let_def first_nonempty)
qed

lemma find_target_region_error:
  "find_target_region lib l img = Inl e \<Longrightarrow> \<exists>p. e = ValueError p"
proof -
  assume a: "find_target_region lib l img = Inl e"
  then have "isl (find_target_region lib l img)" by simp
  then have "filtered (regionprops lib l img) = []" by (simp add: find_target_region_isl)
  with a show ?thesis by (auto simp add: find_target_region_def)
qed

text \<open>
  C3. The filter keeps a region exactly when neither its area is below 30 nor its
  eccentricity is 0.98 or more. The selector raises if and only if the filter keeps
  nothing; the error then carries the pair of area and eccentricity of every region that
  \<open>regionprops\<close> returned, so the payload is as long as the unfiltered list.
\<close>

theorem find_target_region_filter:
  "filtered regions = filter (\<lambda>x. \<not> (area x < 30 \<or> 98 / 100 \<le> eccentricity x)) regions
   \<and> (isl (find_target_region lib l img) \<longleftrightarrow> filtered (regionprops lib l img) = [])
   \<and> (filtered (regionprops lib l img) = [] \<longrightarrow>
        find_target_region lib l img =
          Inl (ValueError (BadThreshold
            (map (\<lambda>r. (area r, eccentricity r)) (regionprops lib l img)))))
   \<and> (\<forall>p. find_target_region lib l img = Inl (ValueError (BadThreshold p)) \<longrightarrow>
        length p = length (regionprops lib l img))"
proof (intro conjI allI impI)
  show "filtered regions = filter (\<lambda>x. \<not> (area x < 30 \<or> 98 / 100 \<le> eccentricity x)) regions"
    by (simp add: filtered_def AREA_THRESHOLD_def ECCENTRICITY_THRESHOLD_def not_less not_le)
  show "isl (find_target_region lib l img) \<longleftrightarrow> filtered (regionprops lib l img) = []"
    by (rule find_target_region_isl)
  show "find_target_region lib l img =
          Inl (ValueError (BadThreshold
            (map (\<lambda>r. (area r, eccentricity r)) (regionprops lib l img))))"
    if "filtered (regionprops lib l img) = []"
    using that by (simp add: find_target_region_def)
  show "length p = length (regionprops lib l img)"
    if "find_target_region lib l img = Inl (ValueError (BadThreshold p))" for p
  proof -
    from that have "isl (find_target_region lib l img)" by simp
    then have "filtered (regionprops lib l img) = []" by (simp add: find_target_region_isl)
    with that show ?thesis by (auto simp add: find_target_region_def)
  qed
qed

text \<open>
  At the boundary: area 30 with eccentricity 0.5 is kept, area 29 and eccentricity 0.98
  are not; with only the latter two the selector raises with both pairs.
\<close>

theorem find_target_region_filter_witness:
  "filtered [blob 30 (1 / 2) 1 (0, 0), blob 29 (1 / 2) 1 (0, 0), blob 40 (98 / 100) 1 (0, 0)]
     = [blob 30 (1 / 2) 1 (0, 0)]
   \<and> filtered (regionprops
        (stub_skimage (\<lambda>l. [blob 29 (1 / 2) 1 (0, 0), blob 40 (98 / 100) 1 (0, 0)]))
        [[1, 2]] [[1, 1]])
     = []
   \<and> find_target_region
        (stub_skimage (\<lambda>l. [blob 29 (1 / 2) 1 (0, 0), blob 40 (98 / 100) 1 (0, 0)]))
        [[1, 2]] [[1, 1]]
     = Inl (ValueError (BadThreshold [(29, 1 / 2), (40, 98 / 100)]))
   \<and> length [(29 :: nat, 1 / 2 :: real), (40, 98 / 100)]
     = length (regionprops
        (stub_skimage (\<lambda>l. [blob 29 (1 / 2) 1 (0, 0), blob 40 (98 / 100) 1 (0, 0)]))
        [[1, 2]] [[1, 1]])"
  using find_target_region_filter
    [of "[blob 30 (1 / 2) 1 (0, 0), blob 29 (1 / 2) 1 (0, 0), blob 40 (98 / 100) 1 (0, 0)]"
        "stub_skimage (\<lambda>l. [blob 29 (1 / 2) 1 (0, 0), blob 40 (98 / 100) 1 (0, 0)])"
        "[[1, 2]]" "[[1, 1]]"]
  by (simp add: stub_skimage_def filtered_def blob_def AREA_THRESHOLD_def
      ECCENTRICITY_THRESHOLD_def)

text \<open>
  C6. When exactly one region has area at least 30 and eccentricity below 0.98, the
  list of the brightest candidates is that region alone, the closeness test is false
  on it, and the selector returns it.
\<close>

theorem find_target_region_single:
  assumes "filter (\<lambda>x. 30 \<le> area x \<and> eccentricity x < 98 / 100) (regionprops lib l img) = [r]"
  shows "sorted_mean_intensity (filtered (regionprops lib l img)) = [r]
       \<and> \<not> two_regions_close [r]
       \<and> find_target_region lib l img = Inr r"
proof -
  from assms have f: "filtered (regionprops lib l img) = [r]"
    by (simp add: filtered_def AREA_THRESHOLD_def ECCENTRICITY_THRESHOLD_def)
  then show ?thesis
    by (simp add: find_target_region_def sorted_mean_intensity_single two_regions_close_def
        first_def)
qed

theorem find_target_region_single_witness:
  "filter (\<lambda>x. 30 \<le> area x \<and> eccentricity x < 98 / 100) (regionprops
      (stub_skimage
        (\<lambda>l. [blob 12 0 3 (1, 1), blob 40 (1 / 2) 1 (3, 3), blob 50 (99 / 100) 2 (8, 8)]))
      [[1, 2]] [[1, 1]])
     = [blob 40 (1 / 2) 1 (3, 3)]
   \<and> find_target_region
      (stub_skimage
        (\<lambda>l. [blob 12 0 3 (1, 1), blob 40 (1 / 2) 1 (3, 3), blob 50 (99 / 100) 2 (8, 8)]))
      [[1, 2]] [[1, 1]]
     = Inr (blob 40 (1 / 2) 1 (3, 3))"
proof -
  have h: "filter (\<lambda>x. 30 \<le> area x \<and> eccentricity x < 98 / 100) (regionprops
      (stub_skimage
        (\<lambda>l. [blob 12 0 3 (1, 1), blob 40 (1 / 2) 1 (3, 3), blob 50 (99 / 100) 2 (8, 8)]))
      [[1, 2]] [[1, 1]])
     = [blob 40 (1 / 2) 1 (3, 3)]"
    by (simp add: stub_skimage_def blob_def)
  show ?thesis using h find_target_region_single[OF h] by simp
qed

lemmas double_defs =
  double_sub_def round_double_def round_half_even_def pow2_def floor_log2.simps

text \<open>
  Two regions of 30 pixels in the same rows whose column centroids are the doubles of
  160/30 and 910/30. Their exact difference is below 25, but the subtraction of doubles
  gives 25.0, which is not below the threshold: the regions do not count as close and
  the fallback returns the left one.
\<close>

theorem find_target_region_close_counterexample:
  "sorted_mean_intensity (filtered (regionprops
      (stub_skimage (\<lambda>l. [blob 30 (1 / 2) 1 (10, 6004799503160661 / 2 ^ 50),
                            blob 30 (1 / 2) 1 (10, 8538074293556565 / 2 ^ 48)]))
      [[1, 2]] (replicate 20 (replicate 40 0))))
     = [blob 30 (1 / 2) 1 (10, 6004799503160661 / 2 ^ 50),
        blob 30 (1 / 2) 1 (10, 8538074293556565 / 2 ^ 48)]
   \<and> \<bar>snd (centroid (blob 30 (1 / 2) 1 (10, 6004799503160661 / 2 ^ 50)))
        - snd (centroid (blob 30 (1 / 2) 1 (10, 8538074293556565 / 2 ^ 48)))\<bar> < 25
   \<and> \<bar>fst (centroid (blob 30 (1 / 2) 1 (10, 6004799503160661 / 2 ^ 50)))
        - fst (centroid (blob 30 (1 / 2) 1 (10, 8538074293556565 / 2 ^ 48)))\<bar> < 15
   \<and> snd (centroid (blob 30 (1 / 2) 1 (10, 6004799503160661 / 2 ^ 50)))
        < snd (centroid (blob 30 (1 / 2) 1 (10, 8538074293556565 / 2 ^ 48)))
   \<and> double_sub (6004799503160661 / 2 ^ 50) (8538074293556565 / 2 ^ 48) = - 25
   \<and> find_target_region
      (stub_skimage (\<lambda>l. [blob 30 (1 / 2) 1 (10, 6004799503160661 / 2 ^ 50),
                            blob 30 (1 / 2) 1 (10, 8538074293556565 / 2 ^ 48)]))
      [[1, 2]] (replicate 20 (replicate 40 0))
     = Inr (blob 30 (1 / 2) 1 (10, 6004799503160661 / 2 ^ 50))"
proof -
  have sub: "double_sub (6004799503160661 / 2 ^ 50) (8538074293556565 / 2 ^ 48) = - 25"
    by (simp add: double_defs)
  have row: "double_sub 10 10 = 0"
    by (simp add: double_defs)
  have up: "double_sub 20 10 = 10"
    by (simp add: double_defs)
  have left: "double_sub 0 (6004799503160661 / 2 ^ 50) = - (6004799503160661 / 2 ^ 50)"
    by (simp add: double_defs)
  have right: "double_sub 0 (8538074293556565 / 2 ^ 48) = - (8538074293556565 / 2 ^ 48)"
    by (simp add: double_defs)
  show ?thesis
    using sub row up left right
    by (simp add: stub_skimage_def filtered_def blob_def AREA_THRESHOLD_def
        ECCENTRICITY_THRESHOLD_def sorted_mean_intensity_def find_target_region_def
        two_regions_close_def WIDTH_DELTA_THRESHOLD_def HEIGHT_DELTA_THRESHOLD_def
        bottom_left_distance_def first_def Let_def)
qed

text \<open>
  C4, amended. When the two brightest candidates \<open>a\<close> and \<open>b\<close> (in this order) have
  column centroids whose difference, as the subtraction of doubles computes it, is less
  than 25 in absolute value, and row centroids whose computed difference is less than 15
  in absolute value, the selector returns the one with the larger column centroid, and
  \<open>a\<close> when the column centroids are equal.
\<close>

theorem find_target_region_close:
  assumes "sorted_mean_intensity (filtered (regionprops lib l img)) = [a, b]"
    and "\<bar>double_sub (snd (centroid a)) (snd (centroid b))\<bar> < 25"
    and "\<bar>double_sub (fst (centroid a)) (fst (centroid b))\<bar> < 15"
  shows "find_target_region lib l img
           = Inr (if snd (centroid b) \<le> snd (centroid a) then a else b)"
proof -
  have ne: "filtered (regionprops lib l img) \<noteq> []"
    using assms(1) by (auto simp add: sorted_mean_intensity_def)
  have close: "two_regions_close [a, b]"
    using assms(2,3)
    by (simp add: two_regions_close_def WIDTH_DELTA_THRESHOLD_def HEIGHT_DELTA_THRESHOLD_def)
  show ?thesis
    using ne close assms(1) by (simp add: find_target_region_def first_def)
qed

text \<open>
  Two regions of equal mean intensity with centroids (10, 10) and (10, 30): the computed
  differences are 20 and 0, and the region at (10, 30) is returned.
\<close>

theorem find_target_region_close_witness:
  "sorted_mean_intensity (filtered (regionprops
      (stub_skimage (\<lambda>l. [blob 40 (1 / 2) 1 (10, 10), blob 40 (1 / 2) 1 (10, 30)]))
      [[1, 2]] [[1, 1]]))
     = [blob 40 (1 / 2) 1 (10, 10), blob 40 (1 / 2) 1 (10, 30)]
   \<and> \<bar>double_sub (snd (centroid (blob 40 (1 / 2) 1 (10, 10))))
         (snd (centroid (blob 40 (1 / 2) 1 (10, 30))))\<bar> < 25
   \<and> \<bar>double_sub (fst (centroid (blob 40 (1 / 2) 1 (10, 10))))
         (fst (centroid (blob 40 (1 / 2) 1 (10, 30))))\<bar> < 15
   \<and> find_target_region
      (stub_skimage (\<lambda>l. [blob 40 (1 / 2) 1 (10, 10), blob 40 (1 / 2) 1 (10, 30)]))
      [[1, 2]] [[1, 1]]
     = Inr (blob 40 (1 / 2) 1 (10, 30))"
proof -
  have h1: "sorted_mean_intensity (filtered (regionprops
      (stub_skimage (\<lambda>l. [blob 40 (1 / 2) 1 (10, 10), blob 40 (1 / 2) 1 (10, 30)]))
      [[1, 2]] [[1, 1]]))
     = [blob 40 (1 / 2) 1 (10, 10), blob 40 (1 / 2) 1 (10, 30)]"
    by (simp add: stub_skimage_def filtered_def blob_def AREA_THRESHOLD_def
        ECCENTRICITY_THRESHOLD_def sorted_mean_intensity_def)
  have h2: "\<bar>double_sub (snd (centroid (blob 40 (1 / 2) 1 (10, 10))))
         (snd (centroid (blob 40 (1 / 2) 1 (10, 30))))\<bar> < 25"
    by (simp add: blob_def double_defs)
  have h3: "\<bar>double_sub (fst (centroid (blob 40 (1 / 2) 1 (10, 10))))
         (fst (centroid (blob 40 (1 / 2) 1 (10, 30))))\<bar> < 15"
    by (simp add: blob_def double_defs)
  show ?thesis using h1 h2 h3 find_target_region_close[OF h1 h2 h3] by (simp add: blob_def)
qed




section \<open>The first batch loop\<close>

lemma extract_region_label_error:
  "extract_region_label lib img = Inl e \<Longrightarrow> \<exists>p. e = ValueError p"
  by (auto simp add: extract_region_label_def np_max_def Let_def
      split: option.splits list.splits sum.splits)

lemma label_step_failed:
  assumes "isl (extract_region_label lib (images ! i))"
  shows "label_step lib images i (region_labels, failed)
           = Inr (region_labels, failed @ [(i, ''extract_region_label'')])"
proof -
  from assms obtain e where e: "extract_region_label lib (images ! i) = Inl e"
    by (cases "extract_region_label lib (images ! i)") auto
  then obtain p where "e = ValueError p" using extract_region_label_error by blast
  with e show ?thesis by simp
qed

lemma nth_update_total: "xs[i := x] ! k = (if k = i \<and> i < length xs then x else xs ! k)"
  by (cases "i < length xs") (auto simp add: nth_list_update list_update_beyond)

text \<open>
  The loop never raises. It appends one record per image whose thresholding fails, in
  the order of the indices, and assigns the slots of the other images.
\<close>

lemma label_loop:
  "\<exists>rl'. for_range (label_step lib images) idxs (rl, f)
       = Inr (rl', f @ map (\<lambda>i. (i, ''extract_region_label''))
                        (filter (\<lambda>i. isl (extract_region_label lib (images ! i))) idxs))
     \<and> length rl' = length rl
     \<and> (\<forall>k. rl' ! k =
          (if k \<in> set idxs \<and> k < length rl \<and> \<not> isl (extract_region_label lib (images ! k))
           then projr (extract_region_label lib (images ! k)) else rl ! k))"
proof (induction idxs arbitrary: rl f)
  case Nil
  then show ?case by simp
next
  case (Cons i rest)
  show ?case
  proof (cases "extract_region_label lib (images ! i)")
    case (Inl e)
    then have step: "label_step lib images i (rl, f) = Inr (rl, f @ [(i, ''extract_region_label'')])"
      using label_step_failed[of lib images i rl f] by simp
    from Cons.IH[of rl "f @ [(i, ''extract_region_label'')]"] obtain rl' where
      "for_range (label_step lib images) rest (rl, f @ [(i, ''extract_region_label'')])
       = Inr (rl', (f @ [(i, ''extract_region_label'')]) @ map (\<lambda>i. (i, ''extract_region_label''))
                        (filter (\<lambda>i. isl (extract_region_label lib (images ! i))) rest))"
      "length rl' = length rl"
      "\<forall>k. rl' ! k =
          (if k \<in> set rest \<and> k < length rl \<and> \<not> isl (extract_region_label lib (images ! k))
           then projr (extract_region_label lib (images ! k)) else rl ! k)"
      by blast
    then show ?thesis using Inl step by auto
  next
    case (Inr l)
    then have step: "label_step lib images i (rl, f) = Inr (rl[i := l], f)"
      by simp
    from Cons.IH[of "rl[i := l]" f] obtain rl' where
      "for_range (label_step lib images) rest (rl[i := l], f)
       = Inr (rl', f @ map (\<lambda>i. (i, ''extract_region_label''))
                        (filter (\<lambda>i. isl (extract_region_label lib (images ! i))) rest))"
      "length rl' = length (rl[i := l])"
      "\<forall>k. rl' ! k =
          (if k \<in> set rest \<and> k < length (rl[i := l])
              \<and> \<not> isl (extract_region_label lib (images ! k))
           then projr (extract_region_label lib (images ! k)) else rl[i := l] ! k)"
      by blast
    then show ?thesis using Inr step by (auto simp add: nth_update_total)
  qed
qed

section \<open>The second batch loop\<close>

lemma column_set_column:
  assumes "length v = length vm" and "\<forall>row\<in>set vm. i < length row"
  shows "column (map2 (\<lambda>row x. row[i := x]) vm v) k = (if k = i then v else column vm k)"
  using assms
proof (induction vm v rule: list_induct2')
  case (4 row vm x v)
  then show ?case by (auto simp add: column_def nth_list_update)
qed (simp_all add: column_def)

lemma rows_set_column:
  "map length (map2 (\<lambda>row x. row[i := x]) vm v) = take (length v) (map length vm)"
  by (induction vm v rule: list_induct2') simp_all

lemma rows_map2_update:
  assumes "\<forall>row\<in>set vm. length row = n"
  shows "\<forall>row\<in>set (map2 (\<lambda>row x. row[i := x]) vm v). length row = n"
  using assms by (induction vm v rule: list_induct2') simp_all

lemma vocab_step_ok:
  assumes "i < length rl" and "length vm = 10"
    and "find_target_region lib (rl ! i) (images ! i) = Inr r"
  shows "vocab_step lib rl images i (vm, f) =
     Inr (map2 (\<lambda>row x. row[i := x]) vm (projr (extract_vocab r)), f)"
proof -
  have "vocab_try lib rl images i vm
          = Inr (map2 (\<lambda>row x. row[i := x]) vm (projr (extract_vocab r)))"
    using assms by (simp add: vocab_try_def set_column_def extract_vocab_value)
  then show ?thesis by simp
qed

lemma vocab_step_failed:
  assumes "i < length rl" and "isl (find_target_region lib (rl ! i) (images ! i))"
  shows "vocab_step lib rl images i (vm, f) = Inr (vm, f @ [(i, ''find_target_region'')])"
proof -
  from assms(2) obtain e where e: "find_target_region lib (rl ! i) (images ! i) = Inl e"
    by (cases "find_target_region lib (rl ! i) (images ! i)") auto
  then obtain p where "e = ValueError p" using find_target_region_error by blast
  with e assms(1) show ?thesis by (simp add: vocab_try_def)
qed

text \<open>
  C9. One pass of the loop body for image \<open>i\<close>, on a matrix of ten rows. When the
  selector returns a region, the failure list is unchanged, the matrix keeps its shape,
  every column other than \<open>i\<close> is unchanged, and column \<open>i\<close> (when the rows have such a
  column) is the vector of the region. When the selector raises, the matrix is unchanged
  and one record for image \<open>i\<close> is appended to the failure list.
\<close>

theorem vocab_step_frame:
  assumes "i < length region_labels" and "length vocab_matrix = 10"
  shows "(\<forall>r. find_target_region lib (region_labels ! i) (images ! i) = Inr r \<longrightarrow>
            (\<exists>vm'. vocab_step lib region_labels images i (vocab_matrix, failed_indexes)
                      = Inr (vm', failed_indexes)
                 \<and> map length vm' = map length vocab_matrix
                 \<and> (\<forall>k. k \<noteq> i \<longrightarrow> column vm' k = column vocab_matrix k)
                 \<and> ((\<forall>row\<in>set vocab_matrix. i < length row) \<longrightarrow>
                      Inr (column vm' i) = extract_vocab r)))
       \<and> (isl (find_target_region lib (region_labels ! i) (images ! i)) \<longrightarrow>
            vocab_step lib region_labels images i (vocab_matrix, failed_indexes)
              = Inr (vocab_matrix, failed_indexes @ [(i, ''find_target_region'')]))"
proof (intro conjI allI impI)
  fix r
  assume r: "find_target_region lib (region_labels ! i) (images ! i) = Inr r"
  let ?v = "projr (extract_vocab r)"
  let ?vm = "map2 (\<lambda>row x. row[i := x]) vocab_matrix ?v"
  have len: "length ?v = length vocab_matrix"
    using assms(2) length_extract_vocab[of r] by simp
  have step: "vocab_step lib region_labels images i (vocab_matrix, failed_indexes)
                = Inr (?vm, failed_indexes)"
    using vocab_step_ok[OF assms r] .
  have shape: "map length ?vm = map length vocab_matrix"
    using len rows_set_column[of i vocab_matrix ?v] by simp
  have others: "\<forall>k. k \<noteq> i \<longrightarrow> column ?vm k = column vocab_matrix k"
    using len by (simp add: column_def list_eq_iff_nth_eq)
  have this_one:
    "(\<forall>row\<in>set vocab_matrix. i < length row) \<longrightarrow> Inr (column ?vm i) = extract_vocab r"
    using column_set_column[OF len, of i i] extract_vocab_Inr[of r] by simp
  show "\<exists>vm'. vocab_step lib region_labels images i (vocab_matrix, failed_indexes)
                      = Inr (vm', failed_indexes)
                 \<and> map length vm' = map length vocab_matrix
                 \<and> (\<forall>k. k \<noteq> i \<longrightarrow> column vm' k = column vocab_matrix k)
                 \<and> ((\<forall>row\<in>set vocab_matrix. i < length row) \<longrightarrow>
                      Inr (column vm' i) = extract_vocab r)"
    using step shape others this_one by blast
next
  assume "isl (find_target_region lib (region_labels ! i) (images ! i))"
  then show "vocab_step lib region_labels images i (vocab_matrix, failed_indexes)
              = Inr (vocab_matrix, failed_indexes @ [(i, ''find_target_region'')])"
    using vocab_step_failed[OF assms(1)] by simp
qed

lemmas eval_defs =
  run_def extract_region_labels_from_images_def extract_vocab_from_region_labels_def
  extract_region_label_def np_max_def stub_skimage_def count_blob_def vocab_try_def
  find_target_region_def filtered_def blob_def AREA_THRESHOLD_def ECCENTRICITY_THRESHOLD_def
  sorted_mean_intensity_def two_regions_close_def WIDTH_DELTA_THRESHOLD_def
  HEIGHT_DELTA_THRESHOLD_def first_def bottom_left_distance_def
  set_column_def extract_vocab_value column_def saved_failed_indexes_def

text \<open>
  On a one-column matrix of zeros: a region of area 40 fills column 0 and leaves the
  failure list empty; without regions the matrix stays and one record is appended.
\<close>

theorem vocab_step_frame_witness:
  "(0::nat) < length [[[1 :: int]]] \<and> length (replicate 10 [0 :: real]) = 10
   \<and> vocab_step (stub_skimage (\<lambda>l. [blob 40 (1 / 2) 1 (3, 3)])) [[[1]]] [[[1]]] 0
        (replicate 10 [0], [])
     = Inr ([[40], [1 / 2], [7], [1], [8], [6], [20], [1], [1], [1]], [])
   \<and> vocab_step (stub_skimage (\<lambda>l. [])) [[[1]]] [[[1]]] 0 (replicate 10 [0], [])
     = Inr (replicate 10 [0], [(0, ''find_target_region'')])"
proof -
  have h1: "(0::nat) < length [[[1 :: int]]]" by simp
  have h2: "length (replicate 10 [0 :: real]) = 10" by simp
  show ?thesis
    using h1 h2
      vocab_step_frame[OF h1 h2, of "stub_skimage (\<lambda>l. [blob 40 (1 / 2) 1 (3, 3)])"
        "[[[1]]]" "[]"]
      vocab_step_frame[OF h1 h2, of "stub_skimage (\<lambda>l. [])" "[[[1]]]" "[]"]
    by (simp add: eval_defs numeral_eq_Suc)
qed

text \<open>
  The loop over a set of indices, on a matrix of ten rows of \<open>n\<close> entries: it never
  raises, appends one record per index at which the selector raises, and fills the
  columns of the other indices.
\<close>

lemma vocab_loop:
  assumes "\<forall>i\<in>set idxs. i < length rl \<and> i < n" and "length vm = 10"
    and "\<forall>row\<in>set vm. length row = n"
  shows "\<exists>vm'. for_range (vocab_step lib rl images) idxs (vm, f)
       = Inr (vm', f @ map (\<lambda>i. (i, ''find_target_region''))
                        (filter (\<lambda>i. isl (find_target_region lib (rl ! i) (images ! i))) idxs))
     \<and> length vm' = 10 \<and> (\<forall>row\<in>set vm'. length row = n)
     \<and> (\<forall>k. column vm' k =
          (if k \<in> set idxs \<and> \<not> isl (find_target_region lib (rl ! k) (images ! k))
           then projr (extract_vocab (projr (find_target_region lib (rl ! k) (images ! k))))
           else column vm k))"
  using assms
proof (induction idxs arbitrary: vm f)
  case Nil
  then show ?case by simp
next
  case (Cons i rest)
  from Cons.prems have i: "i < length rl" "i < n"
    and rest: "\<forall>i\<in>set rest. i < length rl \<and> i < n"
    by simp_all
  show ?case
  proof (cases "find_target_region lib (rl ! i) (images ! i)")
    case (Inl e)
    then have step:
      "vocab_step lib rl images i (vm, f) = Inr (vm, f @ [(i, ''find_target_region'')])"
      using vocab_step_failed[of i rl lib images vm f] i by simp
    from Cons.IH[OF rest Cons.prems(2) Cons.prems(3), of "f @ [(i, ''find_target_region'')]"]
    obtain vm' where
      "for_range (vocab_step lib rl images) rest (vm, f @ [(i, ''find_target_region'')])
       = Inr (vm', (f @ [(i, ''find_target_region'')]) @ map (\<lambda>i. (i, ''find_target_region''))
                        (filter (\<lambda>i. isl (find_target_region lib (rl ! i) (images ! i))) rest))"
      "length vm' = 10" "\<forall>row\<in>set vm'. length row = n"
      "\<forall>k. column vm' k =
          (if k \<in> set rest \<and> \<not> isl (find_target_region lib (rl ! k) (images ! k))
           then projr (extract_vocab (projr (find_target_region lib (rl ! k) (images ! k))))
           else column vm k)"
      by blast
    then show ?thesis using Inl step by auto
  next
    case (Inr r)
    let ?v = "projr (extract_vocab r)"
    let ?vm = "map2 (\<lambda>row x. row[i := x]) vm ?v"
    have step: "vocab_step lib rl images i (vm, f) = Inr (?vm, f)"
      using vocab_step_ok[OF i(1) Cons.prems(2) Inr] .
    have len: "length ?vm = 10"
      using Cons.prems(2) length_extract_vocab[of r] by simp
    have rows: "\<forall>row\<in>set ?vm. length row = n"
      using rows_map2_update[OF Cons.prems(3)] .
    have col: "column ?vm k = (if k = i then ?v else column vm k)" for k
      using column_set_column[of ?v vm i k] Cons.prems(2,3) i(2) length_extract_vocab[of r]
      by simp
    from Cons.IH[OF rest len rows, of f]
    obtain vm' where
      "for_range (vocab_step lib rl images) rest (?vm, f)
       = Inr (vm', f @ map (\<lambda>i. (i, ''find_target_region''))
                        (filter (\<lambda>i. isl (find_target_region lib (rl ! i) (images ! i))) rest))"
      "length vm' = 10" "\<forall>row\<in>set vm'. length row = n"
      "\<forall>k. column vm' k =
          (if k \<in> set rest \<and> \<not> isl (find_target_region lib (rl ! k) (images ! k))
           then projr (extract_vocab (projr (find_target_region lib (rl ! k) (images ! k))))
           else column ?vm k)"
      by blast
    then show ?thesis using Inr step col by auto
  qed
qed

section \<open>The whole run\<close>

lemma column_zeros: "k < n \<Longrightarrow> column (replicate m (replicate n 0)) k = replicate m 0"
  by (simp add: column_def)

text \<open>
  The run never raises. Its failure list is the records of the first loop followed by
  the records of the second loop. A slot of \<open>region_labels\<close> holds the label map of its
  image when thresholding succeeded and its initial contents otherwise; a column of the
  matrix holds the vector of the region selected from that slot, or zeros when the
  selector raised on it.
\<close>

lemma run_result:
  "\<exists>vm rl.
     extract_region_labels_from_images lib uninit images [] =
       Inr (rl, map (\<lambda>i. (i, ''extract_region_label''))
                 (filter (\<lambda>i. isl (extract_region_label lib (images ! i))) [0..<length images]))
   \<and> run lib uninit images =
       Inr (vm, map (\<lambda>i. (i, ''extract_region_label''))
                 (filter (\<lambda>i. isl (extract_region_label lib (images ! i))) [0..<length images])
              @ map (\<lambda>i. (i, ''find_target_region''))
                 (filter (\<lambda>i. isl (find_target_region lib (rl ! i) (images ! i)))
                    [0..<length images]))
   \<and> length rl = length images
   \<and> (\<forall>k<length images. rl ! k =
          (if isl (extract_region_label lib (images ! k)) then uninit k
           else projr (extract_region_label lib (images ! k))))
   \<and> length vm = 10 \<and> (\<forall>row\<in>set vm. length row = length images)
   \<and> (\<forall>k<length images. column vm k =
          (if isl (find_target_region lib (rl ! k) (images ! k)) then replicate 10 0
           else projr (extract_vocab (projr (find_target_region lib (rl ! k) (images ! k))))))"
proof -
  let ?n = "length images"
  let ?F1 = "map (\<lambda>i. (i, ''extract_region_label''))
                 (filter (\<lambda>i. isl (extract_region_label lib (images ! i))) [0..<?n])"
  from label_loop[of lib images "[0..<?n]" "map uninit [0..<?n]" "[]"]
  obtain rl where
    p1: "for_range (label_step lib images) [0..<?n] (map uninit [0..<?n], []) = Inr (rl, ?F1)"
    and lrl: "length rl = ?n"
    and nth: "\<forall>k. rl ! k =
          (if k \<in> set [0..<?n] \<and> k < length (map uninit [0..<?n])
              \<and> \<not> isl (extract_region_label lib (images ! k))
           then projr (extract_region_label lib (images ! k)) else map uninit [0..<?n] ! k)"
    by auto
  have pass1: "extract_region_labels_from_images lib uninit images [] = Inr (rl, ?F1)"
    using p1 by (simp add: extract_region_labels_from_images_def)
  have nth': "\<forall>k<?n. rl ! k =
          (if isl (extract_region_label lib (images ! k)) then uninit k
           else projr (extract_region_label lib (images ! k)))"
    using nth by simp
  have a1: "\<forall>i\<in>set [0..<?n]. i < length rl \<and> i < ?n" using lrl by simp
  have a2: "length (replicate 10 (replicate ?n (0::real))) = 10" by simp
  have a3: "\<forall>row\<in>set (replicate 10 (replicate ?n (0::real))). length row = ?n" by simp
  from vocab_loop[OF a1 a2 a3, of lib images ?F1]
  obtain vm where
    p2: "for_range (vocab_step lib rl images) [0..<?n] (replicate 10 (replicate ?n 0), ?F1)
       = Inr (vm, ?F1 @ map (\<lambda>i. (i, ''find_target_region''))
                        (filter (\<lambda>i. isl (find_target_region lib (rl ! i) (images ! i))) [0..<?n]))"
    and lvm: "length vm = 10" and rows: "\<forall>row\<in>set vm. length row = ?n"
    and col: "\<forall>k. column vm k =
          (if k \<in> set [0..<?n] \<and> \<not> isl (find_target_region lib (rl ! k) (images ! k))
           then projr (extract_vocab (projr (find_target_region lib (rl ! k) (images ! k))))
           else column (replicate 10 (replicate ?n 0)) k)"
    by blast
  have pass2: "run lib uninit images = Inr (vm, ?F1 @ map (\<lambda>i. (i, ''find_target_region''))
                        (filter (\<lambda>i. isl (find_target_region lib (rl ! i) (images ! i))) [0..<?n]))"
    using pass1 p2 by (simp add: run_def extract_vocab_from_region_labels_def)
  have col': "\<forall>k<?n. column vm k =
          (if isl (find_target_region lib (rl ! k) (images ! k)) then replicate 10 0
           else projr (extract_vocab (projr (find_target_region lib (rl ! k) (images ! k)))))"
    using col by (simp add: column_zeros)
  show ?thesis using pass1 pass2 lrl nth' lvm rows col' by blast
qed

subsection \<open>An image whose thresholding fails\<close>

text \<open>
  C1. A batch of one image with the single intensity 1, on which thresholding raises.
  The first loop records \<open>(0, extract_region_label)\<close> and leaves slot 0 of \<open>region_labels\<close>
  unassigned; the second loop passes that slot to the selector all the same. When the
  slot holds no blob the selector raises and a second record for image 0 is appended;
  when it holds a blob of 36 pixels the properties of that blob are written to column 0.
\<close>

theorem run_constant_image:
  "run (stub_skimage count_blob) (\<lambda>i. [[0, 0], [0, 0]]) [[[1, 1], [1, 1]]]
     = Inr (replicate 10 [0], [(0, ''extract_region_label''), (0, ''find_target_region'')])
   \<and> run (stub_skimage count_blob) (\<lambda>i. replicate 6 (replicate 6 1))
       [replicate 6 (replicate 6 1)]
     = Inr ([[36], [0], [7], [1], [8], [6], [20], [1], [1], [1]], [(0, ''extract_region_label'')])"
  by (simp add: eval_defs numeral_eq_Suc)

subsection \<open>The order of the failure list\<close>

text \<open>
  Image 0 has one bright pixel and fails in the selector; image 1 has a single intensity
  and fails in thresholding. The record of image 1 comes first, so the saved index
  list is not in image order.
\<close>

theorem failed_indexes_order_counterexample:
  "run (stub_skimage count_blob) (\<lambda>i. [[0, 0], [0, 0]]) [[[0, 0], [0, 1]], [[1, 1], [1, 1]]]
     = Inr (replicate 10 [0, 0],
          [(1, ''extract_region_label''), (0, ''find_target_region''),
           (1, ''find_target_region'')])
   \<and> \<not> sorted (saved_failed_indexes
          [(1, ''extract_region_label''), (0, ''find_target_region''),
           (1, ''find_target_region'')])"
  by (simp add: eval_defs)

lemma sorted_wrt_filter_upt: "sorted_wrt (<) (filter P [0..<n])"
  by (simp add: sorted_wrt_filter)

text \<open>
  C2, amended. The failure list is in the order of discovery: first the records of the
  thresholding loop, in increasing image index, then the records of the selection loop,
  in increasing image index. Two records of the same stage are in image order.
\<close>

theorem failed_indexes_two_pass_order:
  "\<exists>vm rl ts ss.
     extract_region_labels_from_images lib uninit images [] =
       Inr (rl, map (\<lambda>i. (i, ''extract_region_label'')) ts)
   \<and> run lib uninit images =
       Inr (vm, map (\<lambda>i. (i, ''extract_region_label'')) ts
              @ map (\<lambda>i. (i, ''find_target_region'')) ss)
   \<and> ts = filter (\<lambda>i. isl (extract_region_label lib (images ! i))) [0..<length images]
   \<and> ss = filter (\<lambda>i. isl (find_target_region lib (rl ! i) (images ! i))) [0..<length images]
   \<and> sorted_wrt (<) ts \<and> sorted_wrt (<) ss"
proof -
  from run_result[of lib uninit images] obtain vm rl where
    "extract_region_labels_from_images lib uninit images [] =
       Inr (rl, map (\<lambda>i. (i, ''extract_region_label''))
                 (filter (\<lambda>i. isl (extract_region_label lib (images ! i))) [0..<length images]))"
    "run lib uninit images =
       Inr (vm, map (\<lambda>i. (i, ''extract_region_label''))
                 (filter (\<lambda>i. isl (extract_region_label lib (images ! i))) [0..<length images])
              @ map (\<lambda>i. (i, ''find_target_region''))
                 (filter (\<lambda>i. isl (find_target_region lib (rl ! i) (images ! i)))
                    [0..<length images]))"
    by blast
  then show ?thesis
    using sorted_wrt_filter_upt by blast
qed

subsection \<open>Two runs on the same image\<close>

text \<open>
  C8. The same batch of one image with a single intensity, processed twice with the
  same library, the two runs differing only in what the unassigned slot of
  \<open>region_labels\<close> happens to hold. Thresholding raises in both runs. In the first run
  the slot holds no blob: the selector raises on it, the column stays at zero and the
  image has two failure records. In the second run the slot holds a blob of 36 pixels:
  the selector returns it, its properties are written to the column and the image has
  one failure record. The two results differ.
\<close>

theorem run_twice_constant_image:
  "run (stub_skimage count_blob) (\<lambda>i. replicate 6 (replicate 6 0))
       [replicate 6 (replicate 6 1)]
     = Inr (replicate 10 [0], [(0, ''extract_region_label''), (0, ''find_target_region'')])
   \<and> run (stub_skimage count_blob) (\<lambda>i. replicate 6 (replicate 6 1))
       [replicate 6 (replicate 6 1)]
     = Inr ([[36], [0], [7], [1], [8], [6], [20], [1], [1], [1]], [(0, ''extract_region_label'')])
   \<and> run (stub_skimage count_blob) (\<lambda>i. replicate 6 (replicate 6 0))
       [replicate 6 (replicate 6 1)]
     \<noteq> run (stub_skimage count_blob) (\<lambda>i. replicate 6 (replicate 6 1))
       [replicate 6 (replicate 6 1)]"
  by (simp add: eval_defs numeral_eq_Suc)

end
